theory Spec2Isabelle
  imports Main "HOL-Library.Word"
begin

section \<open>Machine integers of tracedata.h\<close>

text \<open>
  \<^verbatim>\<open>typedef unsigned long long uint64;\<close> is a 64-bit word. The header's
  \<^verbatim>\<open>unsigned\<close> is a 32-bit word and its \<^verbatim>\<open>int\<close> a 32-bit word read as two's complement
  (\<open>sint\<close>).
  The conversions of C++ between them:
  \<^item> \<^verbatim>\<open>(unsigned)i\<close> for an int keeps the 32 bits;
  \<^item> unsigned to uint64 extends with zeros (\<open>ucast\<close>);
  \<^item> int to uint64 extends the sign (\<open>scast\<close>).
\<close>

type_synonym uint64 = "64 word"
type_synonym c_unsigned = "32 word"
type_synonym c_int = "32 word"

definition unsigned_of_int :: "c_int \<Rightarrow> c_unsigned" where
  "unsigned_of_int i = ucast i"

definition uint64_of_unsigned :: "c_unsigned \<Rightarrow> uint64" where
  "uint64_of_unsigned u = ucast u"

definition uint64_of_int :: "c_int \<Rightarrow> uint64" where
  "uint64_of_int i = scast i"

section \<open>SubCost\<close>

text \<open>
  \<^verbatim>\<open>class SubCost\<close>: a wrapper around the one field \<^verbatim>\<open>uint64 v\<close>.
\<close>

record SubCost =
  v :: uint64

text \<open>\<^verbatim>\<open>SubCost(uint64 i) { v=i; }\<close>\<close>

definition SubCost_uint64 :: "uint64 \<Rightarrow> SubCost" where
  "SubCost_uint64 i = \<lparr> v = i \<rparr>"

text \<open>\<^verbatim>\<open>SubCost(unsigned i) { v=i; }\<close>\<close>

definition SubCost_unsigned :: "c_unsigned \<Rightarrow> SubCost" where
  "SubCost_unsigned i = \<lparr> v = uint64_of_unsigned i \<rparr>"

text \<open>\<^verbatim>\<open>SubCost(int i) { v=(unsigned)i; }\<close>\<close>

definition SubCost_int :: "c_int \<Rightarrow> SubCost" where
  "SubCost_int i = \<lparr> v = uint64_of_unsigned (unsigned_of_int i) \<rparr>"

text \<open>\<^verbatim>\<open>SubCost& operator=(uint64 i) { v = i; return *this; }\<close>\<close>

definition assign_uint64 :: "SubCost \<Rightarrow> uint64 \<Rightarrow> SubCost" where
  "assign_uint64 s i = s\<lparr> v := i \<rparr>"

text \<open>\<^verbatim>\<open>SubCost& operator=(unsigned i) { v = i; return *this; }\<close>\<close>

definition assign_unsigned :: "SubCost \<Rightarrow> c_unsigned \<Rightarrow> SubCost" where
  "assign_unsigned s i = s\<lparr> v := uint64_of_unsigned i \<rparr>"

text \<open>\<^verbatim>\<open>SubCost& operator=(int i) { v = i; return *this; }\<close>\<close>

definition assign_int :: "SubCost \<Rightarrow> c_int \<Rightarrow> SubCost" where
  "assign_int s i = s\<lparr> v := uint64_of_int i \<rparr>"

section \<open>Fixed-size tables\<close>

text \<open>
  \<^verbatim>\<open>static const int MaxRealIndex = 10; static const int InvalidIndex = -1;\<close>
  (class TraceCost).
\<close>

definition MaxRealIndex :: int where
  "MaxRealIndex = 10"

definition InvalidIndex :: int where
  "InvalidIndex = - 1"

text \<open>
  A C++ array \<^verbatim>\<open>T a[n]\<close> is a list of \<open>n\<close> slots. Reading \<^verbatim>\<open>a[i]\<close> with \<open>i\<close>
  outside \<open>0 .. n - 1\<close> is a read outside the table; the model makes it the value
  \<open>Inl OutOfTable\<close> instead of leaving it unspecified.
\<close>

datatype fault = OutOfTable

definition table_read :: "'a list \<Rightarrow> int \<Rightarrow> fault + 'a" where
  "table_read tab i =
     (if 0 \<le> i \<and> i < int (length tab) then Inr (tab ! nat i) else Inl OutOfTable)"

section \<open>TraceCostType\<close>

text \<open>
  A \<^verbatim>\<open>QString\<close> is null (\<^verbatim>\<open>QString::null\<close>, the default of the constructor's
  \<^verbatim>\<open>longName\<close> and \<^verbatim>\<open>formula\<close>) or holds characters; \<^verbatim>\<open>isEmpty()\<close> is true of the
  null string and of the string of length 0.
\<close>

type_synonym QString = "string option"

definition isEmpty :: "QString \<Rightarrow> bool" where
  "isEmpty q = (case q of None \<Rightarrow> True | Some s \<Rightarrow> s = [])"

text \<open>
  The private fields of \<^verbatim>\<open>class TraceCostType\<close>, named as in the header without the
  leading underscore: \<^verbatim>\<open>QString _name, _longName, _formula; bool _parsed, _inParsing;
  int _coefficient[TraceCost::MaxRealIndex]; int _realIndex;\<close>.
  The back pointer \<^verbatim>\<open>_mapping\<close> is not part of the value.
\<close>

record TraceCostType =
  ct_name :: QString
  ct_longName :: QString
  ct_formula :: QString
  ct_parsed :: bool
  ct_inParsing :: bool
  ct_coefficient :: "c_int list"
  ct_realIndex :: int

text \<open>\<^verbatim>\<open>const QString& formula() { return _formula; }\<close>\<close>

definition formula :: "TraceCostType \<Rightarrow> QString" where
  "formula t = ct_formula t"

text \<open>\<^verbatim>\<open>bool isReal() { return _formula.isEmpty(); }\<close>\<close>

definition isReal :: "TraceCostType \<Rightarrow> bool" where
  "isReal t = isEmpty (ct_formula t)"

section \<open>TraceSubMapping\<close>

text \<open>
  The private fields of \<^verbatim>\<open>class TraceSubMapping\<close>: \<^verbatim>\<open>int _count, _firstUnused;
  bool _isIdentity; int _realIndex[TraceCost::MaxRealIndex];
  int _nextUnused[TraceCost::MaxRealIndex];\<close>.
\<close>

record TraceSubMapping =
  sm_count :: int
  sm_firstUnused :: int
  sm_isIdentity :: bool
  sm_realIndex :: "int list"
  sm_nextUnused :: "int list"

text \<open>\<^verbatim>\<open>int count() { return _count; }\<close>\<close>

definition count :: "TraceSubMapping \<Rightarrow> int" where
  "count sm = sm_count sm"

text \<open>
  \<^verbatim>\<open>int realIndex(int i)
    { return (i<0 || i>=_count) ? TraceCost::InvalidIndex : _realIndex[i]; }\<close>
\<close>

definition realIndex :: "TraceSubMapping \<Rightarrow> int \<Rightarrow> fault + int" where
  "realIndex sm i =
     (if i < 0 \<or> i \<ge> sm_count sm then Inr InvalidIndex
      else table_read (sm_realIndex sm) i)"

text \<open>\<^verbatim>\<open>int firstUnused() { return _firstUnused; }\<close>\<close>

definition firstUnused :: "TraceSubMapping \<Rightarrow> int" where
  "firstUnused sm = sm_firstUnused sm"

text \<open>
  \<^verbatim>\<open>int nextUnused(int i) {
      if (i<0 || i>=TraceCost::MaxRealIndex) return TraceCost::InvalidIndex;
      return _nextUnused[i]; }\<close>
\<close>

definition nextUnused :: "TraceSubMapping \<Rightarrow> int \<Rightarrow> fault + int" where
  "nextUnused sm i =
     (if i < 0 \<or> i \<ge> MaxRealIndex then Inr InvalidIndex
      else table_read (sm_nextUnused sm) i)"

text \<open>
  The iteration the header documents for the unused indexes,
  \<^verbatim>\<open>for(i = firstUnused(); i != TraceCost::InvalidIndex; i = nextUnused(i)) { LOOP }\<close>,
  run for at most \<open>n\<close> rounds from the index \<open>i\<close>: the indexes the loop body sees, or the
  fault of a read outside \<^verbatim>\<open>_nextUnused\<close>.
\<close>

fun unused_from :: "nat \<Rightarrow> TraceSubMapping \<Rightarrow> int \<Rightarrow> fault + int list" where
  "unused_from 0 sm i = Inr []"
| "unused_from (Suc n) sm i =
     (if i = InvalidIndex then Inr []
      else case nextUnused sm i of
             Inl e \<Rightarrow> Inl e
           | Inr j \<Rightarrow> (case unused_from n sm j of
                         Inl e \<Rightarrow> Inl e
                       | Inr js \<Rightarrow> Inr (i # js)))"

definition unused_indexes :: "nat \<Rightarrow> TraceSubMapping \<Rightarrow> fault + int list" where
  "unused_indexes n sm = unused_from n sm (firstUnused sm)"

text \<open>
  The tables of an object have the size of their declaration.
\<close>

definition declared_size :: "TraceSubMapping \<Rightarrow> bool" where
  "declared_size sm =
     (int (length (sm_realIndex sm)) = MaxRealIndex \<and>
      int (length (sm_nextUnused sm)) = MaxRealIndex)"

section \<open>TraceCost\<close>

text \<open>
  \<^verbatim>\<open>class TraceCost: public TraceItem\<close>, with the fields the header declares:
  \<^verbatim>\<open>bool _dirty;\<close> (from TraceItem), \<^verbatim>\<open>SubCost _cost[MaxRealIndex];\<close> and
  \<^verbatim>\<open>int _count; // only _count first indexes of _cost are used\<close>.
  The pointers \<^verbatim>\<open>_part\<close> and \<^verbatim>\<open>_dep\<close> and the cache of the last virtual sub cost
  (\<^verbatim>\<open>_cachedCost\<close>, \<^verbatim>\<open>_cachedType\<close>) are left out: no operation below reads them.
\<close>

record TraceCost =
  tc_dirty :: bool
  tc_cost :: "SubCost list"
  tc_count :: int

text \<open>An object of the class: ten slots, and a count of used slots between 0 and ten.\<close>

definition TraceCost_ok :: "'a TraceCost_scheme \<Rightarrow> bool" where
  "TraceCost_ok c =
     (int (length (tc_cost c)) = MaxRealIndex \<and> 0 \<le> tc_count c \<and> tc_count c \<le> MaxRealIndex)"

section \<open>Parts and the data of a trace\<close>

text \<open>
  \<^verbatim>\<open>class TracePart: public TraceListCost\<close>. Of its fields the model keeps \<^verbatim>\<open>QString _name;\<close>,
  \<^verbatim>\<open>bool _active;\<close> and \<^verbatim>\<open>TraceCost _totals; // the totals line\<close>; the descriptive fields
  (\<^verbatim>\<open>_descr\<close>, \<^verbatim>\<open>_trigger\<close>, \<^verbatim>\<open>_timeframe\<close>, \<^verbatim>\<open>_version\<close>, \<^verbatim>\<open>_number\<close>, \<^verbatim>\<open>_tid\<close>,
  \<^verbatim>\<open>_pid\<close>), the dependency list and the pointers are not read by the operations below.
\<close>

record TracePart = TraceCost +
  tp_name :: QString
  tp_active :: bool
  tp_totals :: TraceCost

text \<open>\<^verbatim>\<open>bool isActive() { return _active; }\<close>\<close>

definition isActive :: "TracePart \<Rightarrow> bool" where
  "isActive p = tp_active p"

text \<open>\<^verbatim>\<open>TraceCost* totals() { return &_totals; }\<close>\<close>

definition totals :: "TracePart \<Rightarrow> TraceCost" where
  "totals p = tp_totals p"

text \<open>
  \<^verbatim>\<open>class TraceData: public TraceCost\<close> with \<^verbatim>\<open>TracePartList _parts;\<close>. A \<^verbatim>\<open>TracePart*\<close> of
  the data is the position of the part in this list.
\<close>

record TraceData = TraceCost +
  td_parts :: "TracePart list"

text \<open>\<^verbatim>\<open>TracePartList parts() const { return _parts; }\<close>\<close>

definition parts :: "TraceData \<Rightarrow> TracePart list" where
  "parts d = td_parts d"

text \<open>
  Modelled from the spec: \<^verbatim>\<open>TraceCost::clear()\<close> is declared in the header
  (\<^verbatim>\<open>virtual void clear();\<close>, documented "Set all cost counters to zero") and defined in
  tracedata.cpp, which is not among the sources. Every slot becomes zero and no slot is in
  use.
\<close>

definition clear :: "'a TraceCost_scheme \<Rightarrow> 'a TraceCost_scheme" where
  "clear c =
     c\<lparr> tc_cost := replicate (length (tc_cost c)) (SubCost_uint64 0), tc_count := 0 \<rparr>"

text \<open>
  Modelled from the spec: \<^verbatim>\<open>TraceCost::subCost(int)\<close> ("Same as above, but only for real
  types") is defined in tracedata.cpp. The spec: an out-of-range real index returns "a zero
  SubCost from getters"; only the first \<^verbatim>\<open>_count\<close> slots are used. This is the read of an
  item that is up to date.
\<close>

definition cost_at :: "'a TraceCost_scheme \<Rightarrow> int \<Rightarrow> uint64" where
  "cost_at c i = (if i < 0 \<or> i \<ge> tc_count c then 0 else v (tc_cost c ! nat i))"

text \<open>
  Modelled from the spec: \<^verbatim>\<open>TraceCost::addCost(TraceCost*)\<close> is defined in tracedata.cpp.
  The spec: "addCost(other) operates only over min(count, other.count) and grows count to
  the maximum". The sum is taken over the slots both vectors use; a slot that only the
  other vector uses had no value so far and takes the other's; the count becomes the larger
  one. The addition of \<^verbatim>\<open>SubCost\<close> is that of \<^verbatim>\<open>uint64\<close> and wraps around.
\<close>

definition addCost :: "'a TraceCost_scheme \<Rightarrow> 'b TraceCost_scheme \<Rightarrow> 'a TraceCost_scheme" where
  "addCost c item =
     c\<lparr> tc_cost :=
          map (\<lambda>i. if int i < min (tc_count c) (tc_count item)
                      then SubCost_uint64 (v (tc_cost c ! i) + v (tc_cost item ! i))
                    else if int i < tc_count item then tc_cost item ! i
                    else tc_cost c ! i)
            [0 ..< length (tc_cost c)],
        tc_count := max (tc_count c) (tc_count item) \<rparr>"

text \<open>
  Modelled from the spec: \<^verbatim>\<open>TraceCost::diff(TraceCost*)\<close> is only declared in the header
  (\<^verbatim>\<open>TraceCost diff(TraceCost* item);\<close>); its body is in tracedata.cpp, which is not among
  the sources. The spec: "diff(other) (element-wise subtraction returning a new vector;
  underflow saturates at zero - implementation must make this explicit)" and "diff(other)
  returns max(0, self[i] - other[i]) for each slot". The subtraction of two \<^verbatim>\<open>SubCost\<close> is
  that of their \<^verbatim>\<open>uint64\<close>, so the saturation is the explicit test before it. A slot of an
  operand is read as the getter reads it (a slot that is not in use is zero); the new
  vector has the ten slots of a \<^verbatim>\<open>TraceCost\<close>, is not dirty, and uses as many slots as the
  longer operand.
\<close>

definition minus_saturating :: "uint64 \<Rightarrow> uint64 \<Rightarrow> uint64" where
  "minus_saturating x y = (if x < y then 0 else x - y)"

definition diff :: "'a TraceCost_scheme \<Rightarrow> 'b TraceCost_scheme \<Rightarrow> TraceCost" where
  "diff c item =
     \<lparr> tc_dirty = False,
       tc_cost =
         map (\<lambda>i. SubCost_uint64 (minus_saturating (cost_at c (int i)) (cost_at item (int i))))
           [0 ..< nat MaxRealIndex],
       tc_count = max (tc_count c) (tc_count item) \<rparr>"

text \<open>
  Modelled from the spec: \<^verbatim>\<open>TracePart::activate(bool)\<close> is defined in tracedata.cpp. The
  spec: "activate(bool) returns true iff the flag changed". The result is the returned
  flag and the part afterwards.
\<close>

definition activate :: "TracePart \<Rightarrow> bool \<Rightarrow> bool \<times> TracePart" where
  "activate p active =
     (if tp_active p = active then (False, p) else (True, p\<lparr> tp_active := active \<rparr>))"

text \<open>
  Modelled from the spec: \<^verbatim>\<open>TraceData::activatePart(TracePart*, bool)\<close> is defined in
  tracedata.cpp. The header: "returns true if something changed. These do NOT invalidate
  the dynamic costs on a activation change"; the spec: "Activation changes do not touch
  cached values directly". A position that is not in \<^verbatim>\<open>parts()\<close> is no part of this data
  and leaves it as it is.
\<close>

definition activatePart :: "TraceData \<Rightarrow> nat \<Rightarrow> bool \<Rightarrow> bool \<times> TraceData" where
  "activatePart d p active =
     (if p < length (td_parts d)
      then (let (changed, q) = activate (td_parts d ! p) active
            in (changed, d\<lparr> td_parts := (td_parts d)[p := q] \<rparr>))
      else (False, d))"

text \<open>
  Modelled from the spec: \<^verbatim>\<open>TraceData::invalidateDynamicCost()\<close> is defined in
  tracedata.cpp. The spec: it "sets dirty on Data and cascades" to the aggregates the data
  owns, and "Invalidation is structural, not value-based - it does not recompute". The
  functions, classes, files and objects are not part of this state, so what is left is the
  data's own flag.
\<close>

definition invalidateDynamicCost :: "TraceData \<Rightarrow> TraceData" where
  "invalidateDynamicCost d = d\<lparr> tc_dirty := True \<rparr>"

text \<open>
  The loop of \<^verbatim>\<open>update()\<close> over the dependency list: the totals of each part are added,
  "skipping dependencies whose owning part is inactive".
\<close>

fun add_active :: "'a TraceCost_scheme \<Rightarrow> TracePart list \<Rightarrow> 'a TraceCost_scheme" where
  "add_active c [] = c"
| "add_active c (p # ps) =
     add_active (if isActive p then addCost c (totals p) else c) ps"

text \<open>
  Modelled from the spec: \<^verbatim>\<open>TraceData::update()\<close> is defined in tracedata.cpp. The spec:
  "update() clears the cached vector, iterates its dependency list (skipping dependencies
  whose owning part is inactive ...), adds each dependency's cost, clears dirty"; the
  header: "TraceData dynamic TracePart's". The cost of a part is its totals line.
\<close>

definition update :: "TraceData \<Rightarrow> TraceData" where
  "update d = (add_active (clear d) (td_parts d))\<lparr> tc_dirty := False \<rparr>"

text \<open>
  Modelled from the spec: \<^verbatim>\<open>TraceCost::subCost\<close> on the data, for a real cost type given
  by its real index. The spec: "queries funnel through subCost(...) which calls update()
  iff dirty". The result is the sub cost and the data afterwards.
\<close>

definition subCost :: "TraceData \<Rightarrow> int \<Rightarrow> uint64 \<times> TraceData" where
  "subCost d t = (let d' = (if tc_dirty d then update d else d) in (cost_at d' t, d'))"

text \<open>
  The data is well formed when its vector and the totals of its parts are cost vectors,
  and its cache is in order when it is dirty or holds what \<^verbatim>\<open>update()\<close> computes.
\<close>

definition TraceData_ok :: "TraceData \<Rightarrow> bool" where
  "TraceData_ok d = (TraceCost_ok d \<and> list_all (\<lambda>p. TraceCost_ok (totals p)) (td_parts d))"

definition cache_ok :: "TraceData \<Rightarrow> bool" where
  "cache_ok d = (tc_dirty d \<or> update d = d)"

text \<open>The sum of the totals of the active parts, for the real index \<open>t\<close>.\<close>

definition active_total :: "TracePart list \<Rightarrow> int \<Rightarrow> uint64" where
  "active_total ps t = sum_list (map (\<lambda>p. cost_at (totals p) t) (filter isActive ps))"

section \<open>Items, maps and search\<close>

text \<open>
  \<^verbatim>\<open>enum CostType\<close> of \<^verbatim>\<open>class TraceItem\<close>, the tag that the virtual \<^verbatim>\<open>type()\<close> of an
  item returns.
\<close>

datatype CostType =
    Item | Cost
  | PartInstr | Instr
  | PartLine | Line
  | PartInstrJump | InstrJump
  | PartLineJump | LineJump
  | PartInstrCall | InstrCall
  | PartLineCall | LineCall
  | PartCall | Call
  | PartFunction | FunctionSource | Function | FunctionCycle
  | PartClass | Class | ClassCycle
  | PartFile | File | FileCycle
  | PartObject | Object | ObjectCycle
  | Part | Data
  | MaxCostType | NoCostType

text \<open>
  The characters of a \<^verbatim>\<open>QString\<close>; \<^verbatim>\<open>operator==\<close> of two strings compares them, so that
  the null string equals the string of length 0.
\<close>

definition chars :: "QString \<Rightarrow> string" where
  "chars q = (case q of None \<Rightarrow> [] | Some s \<Rightarrow> s)"

definition QString_eq :: "QString \<Rightarrow> QString \<Rightarrow> bool" where
  "QString_eq a b = (chars a = chars b)"

text \<open>
  \<^verbatim>\<open>class TraceCostItem\<close>, the base of functions, classes, files and objects:
  \<^verbatim>\<open>virtual QString name() { return _name; }\<close>. An instruction, a line or a call has a
  \<^verbatim>\<open>virtual QString name();\<close> whose body is in tracedata.cpp; its result is carried in the
  same field.
\<close>

record TraceCostItem = TraceCost +
  ci_name :: QString

definition name :: "'a TraceCostItem_scheme \<Rightarrow> QString" where
  "name x = ci_name x"

text \<open>
  \<^verbatim>\<open>class TraceFunction: public TraceCostItem\<close> with \<^verbatim>\<open>TraceClass* _cls; TraceObject*
  _object; TraceFile* _file;\<close>, its instruction map, the lines of its sources and
  \<^verbatim>\<open>TraceCallList _callings\<close>. A pointer to a class, an object or a file is the position of
  its entry in the map of the data; a map is the list of its entries in key order.
\<close>

record TraceFunction = TraceCostItem +
  fn_cls :: nat
  fn_object :: nat
  fn_file :: nat
  fn_instrMap :: "TraceCostItem list"
  fn_lineMap :: "TraceCostItem list"
  fn_callings :: "TraceCostItem list"

text \<open>
  The maps of \<^verbatim>\<open>class TraceData\<close> that \<^verbatim>\<open>search\<close> reads: \<^verbatim>\<open>TraceObjectMap _objectMap;
  TraceClassMap _classMap; TraceFileMap _fileMap; TraceFunctionMap _functionMap;\<close>.
\<close>

record TraceMaps =
  td_objectMap :: "TraceCostItem list"
  td_classMap :: "TraceCostItem list"
  td_fileMap :: "TraceCostItem list"
  td_functionMap :: "TraceFunction list"

text \<open>
  A \<^verbatim>\<open>TraceCost*\<close> that \<^verbatim>\<open>search\<close> takes as parent or returns: an entry of a map by its
  position, an instruction, line or call of a function by the position of the function and
  its own, or any other cost item, of which only the \<^verbatim>\<open>type()\<close> matters here.
\<close>

datatype TraceCostRef =
    ObjectRef nat
  | ClassRef nat
  | FileRef nat
  | FunctionRef nat
  | InstrRef nat nat
  | LineRef nat nat
  | CallRef nat nat
  | OtherRef CostType

fun type_of :: "TraceCostRef \<Rightarrow> CostType" where
  "type_of (ObjectRef _) = Object"
| "type_of (ClassRef _) = Class"
| "type_of (FileRef _) = File"
| "type_of (FunctionRef _) = Function"
| "type_of (InstrRef _ _) = Instr"
| "type_of (LineRef _ _) = Line"
| "type_of (CallRef _ _) = Call"
| "type_of (OtherRef k) = k"

text \<open>
  The sub cost that ranks an item: that of the real cost type with index \<open>t\<close>, and the same
  for all items when no cost type is given (\<^verbatim>\<open>TraceCostType* ct = 0\<close>).
\<close>

definition rank :: "int option \<Rightarrow> 'a TraceCost_scheme \<Rightarrow> uint64" where
  "rank ct x = (case ct of None \<Rightarrow> 0 | Some t \<Rightarrow> cost_at x t)"

text \<open>
  The candidate with the highest sub cost. The spec: "Ties resolve to the first encountered
  in canonical iteration order".
\<close>

fun highest :: "('r \<times> uint64) option \<Rightarrow> ('r \<times> uint64) list \<Rightarrow> 'r option" where
  "highest best [] = map_option fst best"
| "highest None (x # xs) = highest (Some x) xs"
| "highest (Some (r, c)) ((r', c') # xs) =
     highest (if c < c' then Some (r', c') else Some (r, c)) xs"

text \<open>The entries of a map with the given name, each with its position and sub cost.\<close>

definition named :: "QString \<Rightarrow> int option \<Rightarrow> (nat \<Rightarrow> 'r) \<Rightarrow> 'a TraceCostItem_scheme list
    \<Rightarrow> ('r \<times> uint64) list" where
  "named n ct ref xs =
     map (\<lambda>(i, x). (ref i, rank ct x)) (filter (\<lambda>(i, x). QString_eq (name x) n) (enumerate 0 xs))"

text \<open>
  The restriction of a search for a function. The spec: "For Function, parent may be an
  Object/File/Class restricting the search"; the header: it "can be given, but isn't
  needed".
\<close>

fun restricts :: "TraceCostRef option \<Rightarrow> TraceFunction \<Rightarrow> bool" where
  "restricts (Some (ObjectRef i)) f = (fn_object f = i)"
| "restricts (Some (FileRef i)) f = (fn_file f = i)"
| "restricts (Some (ClassRef i)) f = (fn_cls f = i)"
| "restricts _ f = True"

text \<open>
  Modelled from the spec: \<^verbatim>\<open>TraceData::search(TraceItem::CostType, QString,
  TraceCostType* ct = 0, TraceCost* parent = 0)\<close> is defined in tracedata.cpp, which is not
  among the sources. The spec: "search(kind, name, costType, parent) returns the entity of
  kind with the given name and highest subCost(costType). For Instr/Line/Call, parent must
  be a Function (these scopes are not globally indexed)"; the header: "For some items, they
  will only be found if the parent cost is given: Instr, Line, Call => need parent of type
  Function". The null pointer is \<open>None\<close>, as parent and as result.
\<close>

definition in_function :: "TraceMaps \<Rightarrow> TraceCostRef option
    \<Rightarrow> (nat \<Rightarrow> TraceFunction \<Rightarrow> TraceCostRef option) \<Rightarrow> TraceCostRef option" where
  "in_function d parent look =
     (case parent of
        None \<Rightarrow> None
      | Some p \<Rightarrow>
          if type_of p = Function
          then (case p of
                  FunctionRef i \<Rightarrow>
                    if i < length (td_functionMap d) then look i (td_functionMap d ! i) else None
                | _ \<Rightarrow> None)
          else None)"

definition search :: "TraceMaps \<Rightarrow> CostType \<Rightarrow> QString \<Rightarrow> int option \<Rightarrow> TraceCostRef option
    \<Rightarrow> TraceCostRef option" where
  "search d t n ct parent =
     (case t of
        Function \<Rightarrow>
          highest None
            (map (\<lambda>(i, f). (FunctionRef i, rank ct f))
               (filter (\<lambda>(i, f). QString_eq (name f) n \<and> restricts parent f)
                  (enumerate 0 (td_functionMap d))))
      | Object \<Rightarrow> highest None (named n ct ObjectRef (td_objectMap d))
      | File \<Rightarrow> highest None (named n ct FileRef (td_fileMap d))
      | Class \<Rightarrow> highest None (named n ct ClassRef (td_classMap d))
      | Instr \<Rightarrow>
          in_function d parent (\<lambda>i f. highest None (named n ct (InstrRef i) (fn_instrMap f)))
      | Line \<Rightarrow>
          in_function d parent (\<lambda>i f. highest None (named n ct (LineRef i) (fn_lineMap f)))
      | Call \<Rightarrow>
          in_function d parent (\<lambda>i f. highest None (named n ct (CallRef i) (fn_callings f)))
      | _ \<Rightarrow> None)"

section \<open>Examples\<close>

text \<open>
  The sub-mapping \<open>[3, 4, 0]\<close> of the header's comment on \<^verbatim>\<open>class TraceSubMapping\<close>:
  three used indexes, and the indexes 1, 2, 5, ..., 9 chained as unused.
\<close>

definition sm_example :: TraceSubMapping where
  "sm_example =
     \<lparr> sm_count = 3, sm_firstUnused = 1, sm_isIdentity = False,
       sm_realIndex = [3, 4, 0, 0, 0, 0, 0, 0, 0, 0],
       sm_nextUnused = [0, 2, 5, 0, 0, 6, 7, 8, 9, - 1] \<rparr>"

text \<open>A cost vector with the given used slots, for the examples.\<close>

definition cost_of :: "uint64 list \<Rightarrow> TraceCost" where
  "cost_of xs =
     \<lparr> tc_dirty = False,
       tc_cost = map SubCost_uint64 xs @ replicate (10 - length xs) (SubCost_uint64 0),
       tc_count = int (length xs) \<rparr>"

text \<open>
  The spec's scenario of two parts with one real type: part A has the total 100 and part B
  the total 50 for the real index 0; both are active and the data has not been computed yet.
\<close>

definition part_of :: "string \<Rightarrow> bool \<Rightarrow> uint64 list \<Rightarrow> TracePart" where
  "part_of n a xs =
     \<lparr> tc_dirty = False, tc_cost = replicate 10 (SubCost_uint64 0), tc_count = 0,
       tp_name = Some n, tp_active = a, tp_totals = cost_of xs \<rparr>"

definition data_example :: TraceData where
  "data_example =
     \<lparr> tc_dirty = True, tc_cost = replicate 10 (SubCost_uint64 0), tc_count = 0,
       td_parts = [part_of ''A'' True [100], part_of ''B'' True [50]] \<rparr>"

text \<open>
  The spec's scenario: two functions named \<open>process\<close> in different objects, with 100 and
  250 for the real index 0; the first has an instruction and a line.
\<close>

definition item_of :: "string \<Rightarrow> uint64 list \<Rightarrow> TraceCostItem" where
  "item_of n xs = TraceCost.extend (cost_of xs) \<lparr> ci_name = Some n \<rparr>"

definition function_of :: "string \<Rightarrow> nat \<Rightarrow> uint64 list \<Rightarrow> TraceCostItem list \<Rightarrow> TraceFunction" where
  "function_of n ob xs is =
     TraceCostItem.extend (item_of n xs)
       \<lparr> fn_cls = 0, fn_object = ob, fn_file = 0,
         fn_instrMap = is, fn_lineMap = [item_of ''10'' [100]], fn_callings = [] \<rparr>"

definition maps_example :: TraceMaps where
  "maps_example =
     \<lparr> td_objectMap = [item_of ''a.out'' [100], item_of ''libc.so'' [250]],
       td_classMap = [item_of ''(global)'' [350]],
       td_fileMap = [item_of ''main.c'' [350]],
       td_functionMap =
         [function_of ''process'' 0 [100] [item_of ''0x400'' [60], item_of ''0x404'' [40]],
          function_of ''process'' 1 [250] []] \<rparr>"

section \<open>Properties of SubCost\<close>

lemma uint_SubCost_int: "uint (v (SubCost_int i)) = sint i mod 2 ^ 32"
proof -
  have "uint (ucast i :: uint64) = uint i"
    by (simp add: uint_up_ucast is_up)
  then show ?thesis
    by (simp add: SubCost_int_def uint64_of_unsigned_def unsigned_of_int_def
        uint_sint take_bit_eq_mod)
qed

lemma uint_assign_int: "uint (v (assign_int s i)) = sint i mod 2 ^ 64"
proof -
  have "(scast i :: uint64) = word_of_int (sint i)" by (rule scast_eq)
  then have "uint (scast i :: uint64) = sint i mod 2 ^ 64"
    by (simp only: uint_word_of_int_eq take_bit_eq_mod) simp
  then show ?thesis by (simp add: assign_int_def uint64_of_int_def)
qed

lemma negative_mod_differs:
  fixes k :: int
  assumes "k < 0" and "- (2 ^ 31) \<le> k"
  shows "k mod 2 ^ 32 < k mod 2 ^ 64"
proof -
  have "(k + 2 ^ 64) mod 2 ^ 64 = k + 2 ^ 64"
    by (rule mod_pos_pos_trivial) (use assms in simp_all)
  then have "k mod 2 ^ 64 = k + 2 ^ 64" by simp
  moreover have "k mod 2 ^ 32 < 2 ^ 32" by simp
  moreover have "(2::int) ^ 32 \<le> 2 ^ 64 - 2 ^ 31" by simp
  ultimately show ?thesis using assms by linarith
qed

text \<open>
  Claim C9. For a negative int \<open>i\<close>, the constructor \<^verbatim>\<open>SubCost(int)\<close> stores the 32-bit
  unsigned conversion of \<open>i\<close> (\<open>i mod 2^32\<close>), the assignment \<^verbatim>\<open>operator=(int)\<close> stores the
  sign extension of \<open>i\<close> to 64 bits (\<open>i mod 2^64\<close>), and the two stored values differ.
\<close>

theorem SubCost_int_assign_int_disagree:
  assumes "sint i < 0"
  shows "uint (v (SubCost_int i)) = sint i mod 2 ^ 32 \<and>
         uint (v (assign_int s i)) = sint i mod 2 ^ 64 \<and>
         v (SubCost_int i) \<noteq> v (assign_int s i)"
proof -
  have lo: "- (2 ^ 31) \<le> sint i" using sint_ge [of i] by simp
  have "uint (v (SubCost_int i)) < uint (v (assign_int s i))"
    using negative_mod_differs [OF assms lo]
    by (simp only: uint_SubCost_int uint_assign_int)
  then have "v (SubCost_int i) \<noteq> v (assign_int s i)" by auto
  then show ?thesis by (simp only: uint_SubCost_int uint_assign_int) simp
qed

text \<open>At \<open>i = -1\<close>: \<open>2^32 - 1\<close> from the constructor, \<open>2^64 - 1\<close> from the assignment.\<close>

theorem SubCost_int_assign_int_disagree_witness:
  "sint (- 1 :: c_int) < 0 \<and>
   uint (v (SubCost_int (- 1))) = 2 ^ 32 - 1 \<and>
   uint (v (assign_int \<lparr> v = 0 \<rparr> (- 1))) = 2 ^ 64 - 1 \<and>
   v (SubCost_int (- 1)) \<noteq> v (assign_int \<lparr> v = 0 \<rparr> (- 1))"
proof -
  have h: "sint (- 1 :: c_int) < 0" by simp
  show ?thesis
    using h SubCost_int_assign_int_disagree [OF h, of "\<lparr> v = 0 \<rparr>"] by simp
qed

section \<open>Properties of TraceCostType::isReal\<close>

text \<open>
  Claim C7. \<^verbatim>\<open>isReal()\<close> is true exactly when the formula string is empty, that is the null
  string or the string of length 0: a type is real exactly when it carries no formula.
\<close>

theorem isReal_iff_formula_empty:
  "isReal t \<longleftrightarrow> (formula t = None \<or> formula t = Some [])"
  by (simp add: isReal_def formula_def isEmpty_def split: option.split)

section \<open>Properties of TraceSubMapping\<close>

text \<open>
  Claim C6. \<^verbatim>\<open>InvalidIndex\<close> is \<open>-1\<close>; \<^verbatim>\<open>realIndex(i)\<close> returns it whenever \<open>i < 0\<close> or
  \<open>i \<ge> count()\<close>, without a fault and without a read of the table; for the other \<open>i\<close> it
  returns the index stored at slot \<open>i\<close>, which lies inside the table of an object whose
  count is at most \<^verbatim>\<open>MaxRealIndex\<close>.
\<close>

theorem realIndex_sentinel:
  "InvalidIndex = - 1 \<and>
   (i < 0 \<or> i \<ge> count sm \<longrightarrow> realIndex sm i = Inr InvalidIndex) \<and>
   (declared_size sm \<and> count sm \<le> MaxRealIndex \<and> 0 \<le> i \<and> i < count sm \<longrightarrow>
      realIndex sm i = Inr (sm_realIndex sm ! nat i))"
  by (simp add: InvalidIndex_def realIndex_def count_def declared_size_def table_read_def)

text \<open>On the sub-mapping \<open>[3, 4, 0]\<close>: below the range, above it, and inside it.\<close>

theorem realIndex_sentinel_witness:
  "declared_size sm_example \<and> count sm_example \<le> MaxRealIndex \<and>
   realIndex sm_example (- 1) = Inr (- 1) \<and>
   realIndex sm_example 3 = Inr (- 1) \<and>
   realIndex sm_example 1 = Inr 4"
proof -
  have d: "declared_size sm_example" by (simp add: declared_size_def sm_example_def MaxRealIndex_def)
  have c: "count sm_example = 3" by (simp add: count_def sm_example_def)
  have t: "sm_realIndex sm_example ! nat 1 = 4" by (simp add: sm_example_def)
  show ?thesis
    using d c t realIndex_sentinel [of "- 1" sm_example] realIndex_sentinel [of 3 sm_example]
      realIndex_sentinel [of 1 sm_example]
    by (simp add: MaxRealIndex_def)
qed

lemma nextUnused_in_table:
  "declared_size sm \<Longrightarrow> \<exists>j. nextUnused sm i = Inr j"
  by (simp add: nextUnused_def declared_size_def table_read_def)

lemma unused_from_in_table:
  "declared_size sm \<Longrightarrow> \<exists>js. unused_from n sm i = Inr js"
proof (induction n arbitrary: i)
  case 0
  then show ?case by simp
next
  case (Suc n)
  from Suc.prems obtain j where j: "nextUnused sm i = Inr j"
    using nextUnused_in_table by blast
  from Suc.IH [OF Suc.prems] obtain js where "unused_from n sm j = Inr js" by blast
  with j show ?case by simp
qed

text \<open>
  Claim C10. \<^verbatim>\<open>MaxRealIndex\<close> is 10; \<^verbatim>\<open>nextUnused(i)\<close> returns \<^verbatim>\<open>InvalidIndex\<close> whenever
  \<open>i < 0\<close> or \<open>i \<ge> MaxRealIndex\<close>; with the table of its declared size, neither
  \<^verbatim>\<open>nextUnused\<close> nor the iteration \<^verbatim>\<open>firstUnused()/nextUnused()\<close>, however long it runs,
  reads outside the table.
\<close>

theorem nextUnused_sentinel:
  "MaxRealIndex = 10 \<and>
   (i < 0 \<or> i \<ge> MaxRealIndex \<longrightarrow> nextUnused sm i = Inr InvalidIndex) \<and>
   (declared_size sm \<longrightarrow>
      nextUnused sm i \<noteq> Inl OutOfTable \<and> unused_indexes n sm \<noteq> Inl OutOfTable)"
proof -
  have "declared_size sm \<Longrightarrow> nextUnused sm i \<noteq> Inl OutOfTable"
    using nextUnused_in_table [of sm i] by auto
  moreover have "declared_size sm \<Longrightarrow> unused_indexes n sm \<noteq> Inl OutOfTable"
    using unused_from_in_table [of sm n "firstUnused sm"] by (auto simp: unused_indexes_def)
  ultimately show ?thesis by (simp add: MaxRealIndex_def nextUnused_def)
qed

text \<open>On the sub-mapping \<open>[3, 4, 0]\<close>, whose unused indexes are 1, 2, 5, 6, 7, 8, 9.\<close>

theorem nextUnused_sentinel_witness:
  "declared_size sm_example \<and>
   nextUnused sm_example (- 1) = Inr (- 1) \<and>
   nextUnused sm_example 10 = Inr (- 1) \<and>
   nextUnused sm_example 2 = Inr 5 \<and>
   unused_indexes 20 sm_example = Inr [1, 2, 5, 6, 7, 8, 9]"
proof -
  have d: "declared_size sm_example" by (simp add: declared_size_def sm_example_def MaxRealIndex_def)
  have n: "nextUnused sm_example 2 = Inr 5"
    by (simp add: nextUnused_def sm_example_def MaxRealIndex_def table_read_def)
  have u: "unused_indexes 20 sm_example = Inr [1, 2, 5, 6, 7, 8, 9]"
    by code_simp
  show ?thesis
    using d n u nextUnused_sentinel [of "- 1" sm_example 20] nextUnused_sentinel [of 10 sm_example 20]
    unfolding MaxRealIndex_def InvalidIndex_def by simp
qed

section \<open>Properties of TraceCost::diff\<close>

lemma uint_minus_saturating:
  "uint (minus_saturating x y) = max 0 (uint x - uint y)"
proof (cases "x < y")
  case True
  then have "uint x < uint y" by (simp add: word_less_def)
  with True show ?thesis by (simp add: minus_saturating_def)
next
  case False
  then have l: "y \<le> x" by simp
  then have u: "uint y \<le> uint x" by (simp add: word_le_def)
  from l have "uint (x - y) = uint x - uint y"
    by (simp add: uint_minus_simple_alt)
  with False u show ?thesis by (simp add: minus_saturating_def)
qed

lemma TraceCost_ok_diff:
  assumes "TraceCost_ok a" and "TraceCost_ok b"
  shows "TraceCost_ok (diff a b)"
  using assms by (auto simp: TraceCost_ok_def diff_def MaxRealIndex_def)

lemma cost_at_diff:
  assumes "TraceCost_ok a" and "TraceCost_ok b"
  shows "cost_at (diff a b) i = minus_saturating (cost_at a i) (cost_at b i)"
proof (cases "i < 0 \<or> i \<ge> max (tc_count a) (tc_count b)")
  case True
  then show ?thesis by (auto simp: cost_at_def diff_def minus_saturating_def)
next
  case False
  then have r: "0 \<le> i" "i < max (tc_count a) (tc_count b)" by auto
  with assms have n: "nat i < nat MaxRealIndex"
    by (auto simp: TraceCost_ok_def)
  have k: "tc_count (diff a b) = max (tc_count a) (tc_count b)"
    by (simp add: diff_def)
  have "cost_at (diff a b) i = v (tc_cost (diff a b) ! nat i)"
    using r by (auto simp: cost_at_def [of "diff a b"] k)
  also have "\<dots> = minus_saturating (cost_at a (int (nat i))) (cost_at b (int (nat i)))"
    using n by (simp add: diff_def SubCost_uint64_def)
  finally show ?thesis using r by simp
qed

text \<open>
  Claim C3. For cost vectors \<open>a\<close> and \<open>b\<close>, \<^verbatim>\<open>a.diff(b)\<close> is a new cost vector that uses as many
  slots as the longer of the two, and whose slot \<open>i\<close> is \<open>max(0, a[i] - b[i])\<close>, the difference
  taken in the integers: where \<open>b[i]\<close> exceeds \<open>a[i]\<close> the slot is 0, with no wrap-around.
\<close>

theorem diff_saturates_at_zero:
  assumes "TraceCost_ok a" and "TraceCost_ok b"
  shows "TraceCost_ok (diff a b) \<and>
         tc_count (diff a b) = max (tc_count a) (tc_count b) \<and>
         uint (cost_at (diff a b) i) = max 0 (uint (cost_at a i) - uint (cost_at b i)) \<and>
         (cost_at a i < cost_at b i \<longrightarrow> cost_at (diff a b) i = 0)"
proof -
  have c: "cost_at (diff a b) i = minus_saturating (cost_at a i) (cost_at b i)"
    using assms by (rule cost_at_diff)
  have "TraceCost_ok (diff a b)" using assms by (rule TraceCost_ok_diff)
  moreover have "tc_count (diff a b) = max (tc_count a) (tc_count b)"
    by (simp add: diff_def)
  moreover have "uint (cost_at (diff a b) i) = max 0 (uint (cost_at a i) - uint (cost_at b i))"
    by (simp only: c uint_minus_saturating)
  moreover have "cost_at a i < cost_at b i \<Longrightarrow> cost_at (diff a b) i = 0"
    by (simp add: c minus_saturating_def)
  ultimately show ?thesis by blast
qed

text \<open>
  On \<open>a = (0, 7)\<close> and \<open>b = (1, 3)\<close>: slot 0 saturates, slot 1 is the difference; on
  \<open>a = (5)\<close>, which does not use slot 1, that slot of the result is 0.
\<close>

theorem diff_saturates_at_zero_witness:
  "TraceCost_ok (cost_of [0, 7]) \<and> TraceCost_ok (cost_of [1, 3]) \<and> TraceCost_ok (cost_of [5]) \<and>
   cost_at (diff (cost_of [0, 7]) (cost_of [1, 3])) 0 = 0 \<and>
   cost_at (diff (cost_of [0, 7]) (cost_of [1, 3])) 1 = 4 \<and>
   cost_at (diff (cost_of [5]) (cost_of [1, 3])) 1 = 0 \<and>
   tc_count (diff (cost_of [5]) (cost_of [1, 3])) = 2"
proof -
  have a: "TraceCost_ok (cost_of [0, 7])" by (simp add: TraceCost_ok_def cost_of_def MaxRealIndex_def)
  have b: "TraceCost_ok (cost_of [1, 3])" by (simp add: TraceCost_ok_def cost_of_def MaxRealIndex_def)
  have c: "TraceCost_ok (cost_of [5])" by (simp add: TraceCost_ok_def cost_of_def MaxRealIndex_def)
  have s: "cost_at (cost_of [0, 7]) 0 = 0" "cost_at (cost_of [1, 3]) 0 = 1"
    "cost_at (cost_of [0, 7]) 1 = 7" "cost_at (cost_of [1, 3]) 1 = 3"
    "cost_at (cost_of [5]) 1 = 0"
    by (simp_all add: cost_at_def cost_of_def SubCost_uint64_def)
  have n: "tc_count (cost_of [5]) = 1" "tc_count (cost_of [1, 3]) = 2"
    by (simp_all add: cost_of_def)
  from diff_saturates_at_zero [OF a b, of 0] s
  have x0: "cost_at (diff (cost_of [0, 7]) (cost_of [1, 3])) 0 = 0" by simp
  from diff_saturates_at_zero [OF a b, of 1] s
  have "uint (cost_at (diff (cost_of [0, 7]) (cost_of [1, 3])) 1) = 4" by simp
  then have x1: "cost_at (diff (cost_of [0, 7]) (cost_of [1, 3])) 1 = 4"
    by (simp add: word_uint_eq_iff)
  from diff_saturates_at_zero [OF c b, of 1] s n
  have x2: "cost_at (diff (cost_of [5]) (cost_of [1, 3])) 1 = 0"
    and x3: "tc_count (diff (cost_of [5]) (cost_of [1, 3])) = 2" by simp_all
  from a b c x0 x1 x2 x3 show ?thesis by simp
qed

section \<open>Properties of part activation\<close>

lemma TraceCost_ok_clear: "int (length (tc_cost c)) = MaxRealIndex \<Longrightarrow> TraceCost_ok (clear c)"
  by (simp add: TraceCost_ok_def clear_def MaxRealIndex_def)

lemma cost_at_clear: "cost_at (clear c) t = 0"
  by (auto simp: cost_at_def clear_def)

lemma TraceCost_ok_addCost:
  "TraceCost_ok c \<Longrightarrow> TraceCost_ok item \<Longrightarrow> TraceCost_ok (addCost c item)"
  by (auto simp: TraceCost_ok_def addCost_def)

lemma cost_at_addCost:
  assumes "TraceCost_ok c" and "TraceCost_ok item"
  shows "cost_at (addCost c item) t = cost_at c t + cost_at item t"
proof (cases "t < 0 \<or> t \<ge> max (tc_count c) (tc_count item)")
  case True
  then show ?thesis by (auto simp: cost_at_def addCost_def)
next
  case False
  then have t: "0 \<le> t" "t < max (tc_count c) (tc_count item)" by auto
  with assms have n: "nat t < length (tc_cost c)"
    by (auto simp: TraceCost_ok_def)
  have i: "int (nat t) = t" using t by simp
  show ?thesis using t n
    by (simp add: cost_at_def addCost_def i SubCost_uint64_def)
qed

lemma add_active_ok:
  "TraceCost_ok c \<Longrightarrow> list_all (\<lambda>p. TraceCost_ok (totals p)) ps \<Longrightarrow>
   TraceCost_ok (add_active c ps)"
  by (induction ps arbitrary: c) (simp_all add: TraceCost_ok_addCost)

lemma cost_at_add_active:
  "TraceCost_ok c \<Longrightarrow> list_all (\<lambda>p. TraceCost_ok (totals p)) ps \<Longrightarrow>
   cost_at (add_active c ps) t = cost_at c t + active_total ps t"
proof (induction ps arbitrary: c)
  case Nil
  then show ?case by (simp add: active_total_def)
next
  case (Cons p ps)
  then show ?case
    by (simp add: TraceCost_ok_addCost cost_at_addCost active_total_def add.assoc)
qed

lemma cost_at_dirty_irrelevant: "cost_at (c\<lparr> tc_dirty := b \<rparr>) t = cost_at c t"
  by (simp add: cost_at_def)

lemma cost_at_update:
  assumes "TraceData_ok d"
  shows "cost_at (update d) t = active_total (td_parts d) t"
proof -
  from assms have "int (length (tc_cost d)) = MaxRealIndex"
    by (simp add: TraceData_ok_def TraceCost_ok_def)
  then have c: "TraceCost_ok (clear d)"
    by (rule TraceCost_ok_clear)
  from assms have p: "list_all (\<lambda>p. TraceCost_ok (totals p)) (td_parts d)"
    by (simp add: TraceData_ok_def)
  show ?thesis
    by (simp add: update_def cost_at_dirty_irrelevant cost_at_add_active [OF c p] cost_at_clear)
qed


lemma activate_part: "snd (activate q a) = q\<lparr> tp_active := a \<rparr>"
  by (simp add: activate_def)

lemma activatePart_parts:
  "p < length (td_parts d) \<Longrightarrow>
   td_parts (snd (activatePart d p a)) = (td_parts d)[p := (td_parts d ! p)\<lparr> tp_active := a \<rparr>]"
  using activate_part [of "td_parts d ! p" a]
  by (auto simp: activatePart_def split: prod.split)

lemma activatePart_vector:
  "tc_cost (snd (activatePart d p a)) = tc_cost d \<and>
   tc_count (snd (activatePart d p a)) = tc_count d \<and>
   tc_dirty (snd (activatePart d p a)) = tc_dirty d"
  by (simp add: activatePart_def split: prod.split)

lemma totals_ok_update:
  assumes "list_all (\<lambda>q. TraceCost_ok (totals q)) ps"
  shows "list_all (\<lambda>q. TraceCost_ok (totals q)) (ps[p := (ps ! p)\<lparr> tp_active := a \<rparr>])"
proof -
  have "set (ps[p := (ps ! p)\<lparr> tp_active := a \<rparr>]) \<subseteq> insert ((ps ! p)\<lparr> tp_active := a \<rparr>) (set ps)"
    by (rule set_update_subset_insert)
  moreover have "p < length ps \<Longrightarrow> TraceCost_ok (totals ((ps ! p)\<lparr> tp_active := a \<rparr>))"
    using assms by (simp add: list_all_length totals_def)
  moreover have "\<not> p < length ps \<Longrightarrow> ps[p := (ps ! p)\<lparr> tp_active := a \<rparr>] = ps"
    by (rule list_update_beyond) simp
  ultimately show ?thesis using assms
    by (cases "p < length ps") (auto simp: list_all_iff)
qed

lemma TraceData_ok_activatePart:
  assumes "TraceData_ok d"
  shows "TraceData_ok (snd (activatePart d p a))"
proof (cases "p < length (td_parts d)")
  case True
  from assms have "list_all (\<lambda>q. TraceCost_ok (totals q)) (td_parts d)"
    by (simp add: TraceData_ok_def)
  then have "list_all (\<lambda>q. TraceCost_ok (totals q)) (td_parts (snd (activatePart d p a)))"
    by (simp only: activatePart_parts [OF True] totals_ok_update)
  moreover from assms have "TraceCost_ok (snd (activatePart d p a))"
    by (simp add: TraceData_ok_def TraceCost_ok_def activatePart_vector)
  ultimately show ?thesis by (simp add: TraceData_ok_def)
next
  case False
  with assms show ?thesis by (simp add: activatePart_def)
qed

lemma TraceData_ok_invalidateDynamicCost:
  "TraceData_ok d \<Longrightarrow> TraceData_ok (invalidateDynamicCost d)"
  by (simp add: TraceData_ok_def TraceCost_ok_def invalidateDynamicCost_def)

lemma td_parts_add_active: "td_parts (add_active c ps) = td_parts c"
  by (induction ps arbitrary: c) (simp_all add: addCost_def)

lemma td_parts_update: "td_parts (update d) = td_parts d"
  by (simp add: update_def td_parts_add_active clear_def)

lemma TraceData_ok_update:
  assumes "TraceData_ok d"
  shows "TraceData_ok (update d)"
proof -
  from assms have "int (length (tc_cost d)) = MaxRealIndex"
    by (simp add: TraceData_ok_def TraceCost_ok_def)
  then have c: "TraceCost_ok (clear d)"
    by (rule TraceCost_ok_clear)
  from assms have p: "list_all (\<lambda>p. TraceCost_ok (totals p)) (td_parts d)"
    by (simp add: TraceData_ok_def)
  have "TraceCost_ok (add_active (clear d) (td_parts d))"
    using c p by (rule add_active_ok)
  then have "TraceCost_ok (update d)"
    by (simp add: update_def TraceCost_ok_def)
  with p show ?thesis by (simp add: TraceData_ok_def td_parts_update)
qed

lemma subCost_dirty:
  assumes "TraceData_ok d" and "tc_dirty d"
  shows "fst (subCost d t) = active_total (td_parts d) t"
  using assms by (simp add: subCost_def cost_at_update)

lemma subCost_cache_ok:
  assumes "TraceData_ok d" and "cache_ok d"
  shows "fst (subCost d t) = active_total (td_parts d) t"
proof (cases "tc_dirty d")
  case True
  with assms(1) show ?thesis by (rule subCost_dirty)
next
  case False
  with assms(2) have u: "update d = d" by (simp add: cache_ok_def)
  have "cost_at (update d) t = active_total (td_parts d) t"
    using assms(1) by (rule cost_at_update)
  with u False show ?thesis by (simp add: subCost_def)
qed

lemma subCost_state:
  "TraceData_ok d \<Longrightarrow> TraceData_ok (snd (subCost d t)) \<and> td_parts (snd (subCost d t)) = td_parts d"
  by (simp add: subCost_def Let_def TraceData_ok_update td_parts_update)

lemma active_total_without:
  assumes "p < length ps"
  shows "active_total (ps[p := (ps ! p)\<lparr> tp_active := False \<rparr>]) t
           = active_total (take p ps @ drop (Suc p) ps) t"
  using assms by (simp add: active_total_def upd_conv_take_nth_drop isActive_def)

lemma reactivate_parts:
  assumes "p < length ps" and "isActive (ps ! p)"
  shows "(ps[p := (ps ! p)\<lparr> tp_active := False \<rparr>])
           [p := ((ps[p := (ps ! p)\<lparr> tp_active := False \<rparr>]) ! p)\<lparr> tp_active := True \<rparr>] = ps"
proof -
  from assms(2) have "(ps ! p)\<lparr> tp_active := True \<rparr> = ps ! p"
    by (simp add: isActive_def)
  with assms(1) show ?thesis by simp
qed

text \<open>
  Claim C2. For a part \<open>p\<close> of the data and a real cost type \<open>t\<close>: after
  \<^verbatim>\<open>activatePart(p, false)\<close> and \<^verbatim>\<open>invalidateDynamicCost()\<close>, the sub cost of the data is the
  sum of the totals of the active parts, which are the active parts other than \<open>p\<close>; and when
  \<open>p\<close> was active and the data's cache in order at the start, the sub cost after
  \<^verbatim>\<open>activatePart(p, true)\<close> and \<^verbatim>\<open>invalidateDynamicCost()\<close> is the sub cost at the start, the
  sum over all parts active then.
\<close>

theorem deactivate_then_reactivate:
  assumes "TraceData_ok d" and "p < length (parts d)"
  shows
    "(let d1 = invalidateDynamicCost (snd (activatePart d p False));
          d2 = invalidateDynamicCost (snd (activatePart (snd (subCost d1 t)) p True))
      in fst (subCost d1 t) = active_total (parts d1) t \<and>
         active_total (parts d1) t = active_total (take p (parts d) @ drop (Suc p) (parts d)) t \<and>
         (isActive (parts d ! p) \<and> cache_ok d \<longrightarrow>
            fst (subCost d t) = active_total (parts d) t \<and>
            fst (subCost d2 t) = fst (subCost d t)))"
proof -
  define d1 where "d1 = invalidateDynamicCost (snd (activatePart d p False))"
  define d1' where "d1' = snd (subCost d1 t)"
  define d2 where "d2 = invalidateDynamicCost (snd (activatePart d1' p True))"
  from assms(2) have pl: "p < length (td_parts d)" by (simp add: parts_def)
  have ok1: "TraceData_ok d1"
    unfolding d1_def using assms(1)
    by (intro TraceData_ok_invalidateDynamicCost TraceData_ok_activatePart)
  have dirty1: "tc_dirty d1" by (simp add: d1_def invalidateDynamicCost_def)
  have parts1: "td_parts d1 = (td_parts d)[p := (td_parts d ! p)\<lparr> tp_active := False \<rparr>]"
    by (simp add: d1_def invalidateDynamicCost_def activatePart_parts [OF pl])
  have a: "fst (subCost d1 t) = active_total (td_parts d1) t"
    using ok1 dirty1 by (rule subCost_dirty)
  have b: "active_total (td_parts d1) t
             = active_total (take p (td_parts d) @ drop (Suc p) (td_parts d)) t"
    by (simp only: parts1 active_total_without [OF pl])
  have ok1': "TraceData_ok d1'" and parts1': "td_parts d1' = td_parts d1"
    using subCost_state [OF ok1, of t] by (simp_all add: d1'_def)
  have pl1: "p < length (td_parts d1')" using pl by (simp add: parts1' parts1)
  have ok2: "TraceData_ok d2"
    unfolding d2_def using ok1'
    by (intro TraceData_ok_invalidateDynamicCost TraceData_ok_activatePart)
  have dirty2: "tc_dirty d2" by (simp add: d2_def invalidateDynamicCost_def)
  have parts2: "td_parts d2 = (td_parts d1')[p := (td_parts d1' ! p)\<lparr> tp_active := True \<rparr>]"
    by (simp add: d2_def invalidateDynamicCost_def activatePart_parts [OF pl1])
  have c: "fst (subCost d2 t) = fst (subCost d t)" and c0: "fst (subCost d t) = active_total (td_parts d) t"
    if act: "isActive (td_parts d ! p)" and cache: "cache_ok d"
  proof -
    have "td_parts d2 = td_parts d"
      by (simp only: parts2 parts1' parts1 reactivate_parts [OF pl act])
    then have "fst (subCost d2 t) = active_total (td_parts d) t"
      using subCost_dirty [OF ok2 dirty2, of t] by simp
    moreover show "fst (subCost d t) = active_total (td_parts d) t"
      using assms(1) cache by (rule subCost_cache_ok)
    ultimately show "fst (subCost d2 t) = fst (subCost d t)" by simp
  qed
  from a b c c0 show ?thesis
    by (simp add: Let_def parts_def d1_def [symmetric] d1'_def [symmetric] d2_def [symmetric])
qed


text \<open>The spec's scenario: 150 with both parts, 100 without part B, 150 again.\<close>

theorem deactivate_then_reactivate_witness:
  "TraceData_ok data_example \<and> 1 < length (parts data_example) \<and>
   isActive (parts data_example ! 1) \<and> cache_ok data_example \<and>
   fst (subCost data_example 0) = 150 \<and>
   fst (subCost (invalidateDynamicCost (snd (activatePart data_example 1 False))) 0) = 100 \<and>
   fst (subCost (invalidateDynamicCost (snd (activatePart
      (snd (subCost (invalidateDynamicCost (snd (activatePart data_example 1 False))) 0))
      1 True))) 0) = 150"
proof -
  have ok: "TraceData_ok data_example"
    by (simp add: TraceData_ok_def TraceCost_ok_def data_example_def part_of_def totals_def
        cost_of_def MaxRealIndex_def)
  have len: "1 < length (parts data_example)"
    by (simp add: parts_def data_example_def)
  have act: "isActive (parts data_example ! 1)"
    by (simp add: parts_def data_example_def isActive_def part_of_def)
  have cache: "cache_ok data_example"
    by (simp add: cache_ok_def data_example_def)
  have rest: "active_total (take 1 (parts data_example) @ drop (Suc 1) (parts data_example)) 0 = 100"
    by (simp add: active_total_def parts_def data_example_def isActive_def part_of_def totals_def
        cost_at_def cost_of_def SubCost_uint64_def)
  have all: "active_total (parts data_example) 0 = 150"
    by (simp add: active_total_def parts_def data_example_def isActive_def part_of_def totals_def
        cost_at_def cost_of_def SubCost_uint64_def)
  from deactivate_then_reactivate [OF ok len, of 0] act cache rest all ok len
  show ?thesis by (simp add: Let_def)
qed

section \<open>Properties of TraceData::search\<close>

lemma in_function_no_parent:
  "(case parent of None \<Rightarrow> True | Some p \<Rightarrow> type_of p \<noteq> Function) \<Longrightarrow>
   in_function d parent look = None"
  by (simp add: in_function_def split: option.splits)

text \<open>
  Claim C8. A search for an \<^verbatim>\<open>Instr\<close>, a \<^verbatim>\<open>Line\<close> or a \<^verbatim>\<open>Call\<close> whose parent is null or is not
  of type \<^verbatim>\<open>Function\<close> returns null: these kinds are found under a function only.
\<close>

theorem search_needs_Function_parent:
  assumes "t = Instr \<or> t = Line \<or> t = Call"
    and "parent = None \<or> (\<exists>p. parent = Some p \<and> type_of p \<noteq> Function)"
  shows "search d t n ct parent = None"
proof -
  from assms(2) have "case parent of None \<Rightarrow> True | Some p \<Rightarrow> type_of p \<noteq> Function"
    by (auto split: option.splits)
  then have "in_function d parent look = None" for look
    by (rule in_function_no_parent)
  with assms(1) show ?thesis
    by (auto simp: search_def)
qed

text \<open>
  With no parent and with an object as parent nothing is found; under the function the
  instruction is.
\<close>

theorem search_needs_Function_parent_witness:
  "search maps_example Instr (Some ''0x404'') (Some 0) None = None \<and>
   search maps_example Line (Some ''10'') (Some 0) (Some (ObjectRef 0)) = None \<and>
   search maps_example Instr (Some ''0x404'') (Some 0) (Some (FunctionRef 0)) = Some (InstrRef 0 1)"
proof -
  have "search maps_example Instr (Some ''0x404'') (Some 0) (Some (FunctionRef 0))
          = Some (InstrRef 0 1)"
    by code_simp
  moreover have "type_of (ObjectRef 0) \<noteq> Function" by simp
  ultimately show ?thesis
    using search_needs_Function_parent [of Instr None maps_example "Some ''0x404''" "Some 0"]
      search_needs_Function_parent [of Line "Some (ObjectRef 0)" maps_example "Some ''10''" "Some 0"]
    by simp
qed

end
